theory Spec2Isabelle
  imports Complex_Main
begin

section \<open>Python values used by the blog builder\<close>

text \<open>
  Python \<open>str\<close> values are modelled as \<^typ>\<open>string\<close>, one \<^typ>\<open>char\<close> per code point: the
  model covers text whose code points are below 256 (Latin-1), and classifies these 256
  characters as Python's \<open>str\<close> methods and \<open>re\<close> module do. Python \<open>int\<close> is \<^typ>\<open>int\<close>. Every
  exception the code can raise is a value of \<open>py_error\<close>; a fallible function returns
  \<open>py_error + 'a\<close> with \<open>Inl\<close> for the raised exception.
\<close>

datatype py_error =
    ZeroDivisionError
  | TypeError
  | AttributeError
  | ValueError
  | IndexError
  | KeyError
  | JSONDecodeError
  | RecursionError
  | OverflowError
  | UnboundLocalError
  | ServiceError string

text \<open>
  The values \<open>json.loads\<close> returns. A finite float is the rational number it denotes;
  \<open>json.loads\<close> also accepts \<open>Infinity\<close>, \<open>-Infinity\<close> and \<open>NaN\<close>. The keys of an object are
  distinct and kept in insertion order.
\<close>

datatype pyfloat = Finite rat | PosInf | NegInf | NaN

datatype json =
    JNull
  | JBool bool
  | JInt int
  | JFloat pyfloat
  | JString string
  | JArray "json list"
  | JObject "(string \<times> json) list"

definition code_point :: "char \<Rightarrow> int" where
  \<comment> \<open>\<open>ord(c)\<close>\<close>
  "code_point c = of_char c"

definition in_range :: "int \<Rightarrow> int \<Rightarrow> int \<Rightarrow> bool" where
  "in_range n lo hi = (lo \<le> n \<and> n \<le> hi)"

definition is_upper :: "char \<Rightarrow> bool" where
  \<comment> \<open>the characters \<open>str.lower\<close> changes: \<open>A-Z\<close>, and \<open>U+00C0-U+00DE\<close> without the
      multiplication sign\<close>
  "is_upper c =
     (let n = code_point c in in_range n 65 90 \<or> in_range n 192 214 \<or> in_range n 216 222)"

definition is_lower :: "char \<Rightarrow> bool" where
  \<comment> \<open>the characters whose upper case is 32 code points below: \<open>a-z\<close>, and
      \<open>U+00E0-U+00FE\<close> without the division sign\<close>
  "is_lower c =
     (let n = code_point c in in_range n 97 122 \<or> in_range n 224 246 \<or> in_range n 248 254)"

definition is_word :: "char \<Rightarrow> bool" where
  \<comment> \<open>the regular-expression class \<open>\w\<close> of a \<open>str\<close> pattern: the alphanumeric characters
      and the underscore\<close>
  "is_word c =
     (let n = code_point c
      in in_range n 48 57 \<or> in_range n 65 90 \<or> n = 95 \<or> in_range n 97 122
         \<or> n = 170 \<or> in_range n 178 179 \<or> n = 181
         \<or> in_range n 185 186 \<or> in_range n 188 190
         \<or> in_range n 192 214 \<or> in_range n 216 246 \<or> in_range n 248 255)"

definition is_space :: "char \<Rightarrow> bool" where
  \<comment> \<open>\<open>c.isspace()\<close>, which is also the class \<open>\s\<close>: tab to carriage return, the four
      separators \<open>U+001C-U+001F\<close>, the space, \<open>U+0085\<close> and \<open>U+00A0\<close>\<close>
  "is_space c =
     (let n = code_point c in in_range n 9 13 \<or> in_range n 28 32 \<or> n = 133 \<or> n = 160)"

definition lower_char :: "char \<Rightarrow> char" where
  "lower_char c = (if is_upper c then char_of (code_point c + 32) else c)"

definition py_lower :: "string \<Rightarrow> string" where
  \<comment> \<open>\<open>s.lower()\<close>\<close>
  "py_lower s = map lower_char s"

definition at_boundary :: "char option \<Rightarrow> string \<Rightarrow> bool" where
  \<comment> \<open>\<open>\b\<close> between the character before the position (if any) and the rest of the text\<close>
  "at_boundary prev rest =
     ((case prev of None \<Rightarrow> False | Some p \<Rightarrow> is_word p)
      \<noteq> (case rest of [] \<Rightarrow> False | c # _ \<Rightarrow> is_word c))"

definition last_before :: "char option \<Rightarrow> string \<Rightarrow> char option" where
  \<comment> \<open>the character before the position reached after reading \<open>read\<close>\<close>
  "last_before prev read = (if read = [] then prev else Some (last read))"

definition match_word_at :: "bool \<Rightarrow> string \<Rightarrow> char option \<Rightarrow> string \<Rightarrow> bool" where
  \<comment> \<open>does \<open>\b + re.escape(pat) + \b\<close> match at this position? \<open>ci\<close> is \<open>re.IGNORECASE\<close>\<close>
  "match_word_at ci pat prev rest =
     (if at_boundary prev rest \<and> length pat \<le> length rest
      then (if (if ci then py_lower (take (length pat) rest) = py_lower pat
                else take (length pat) rest = pat)
            then at_boundary (last_before prev (take (length pat) rest)) (drop (length pat) rest)
            else False)
      else False)"

section \<open>Text utilities (utils.py)\<close>

subsection \<open>count_words\<close>

fun findall_words :: "string \<Rightarrow> string \<Rightarrow> string list" where
  \<comment> \<open>\<open>re.findall(r'\b\w+\b', text)\<close>: the maximal runs of word characters, \<open>cur\<close> being the
      run read so far\<close>
  "findall_words cur [] = (if cur = [] then [] else [cur])"
| "findall_words cur (c # cs) =
     (if is_word c then findall_words (cur @ [c]) cs
      else (if cur = [] then [] else [cur]) @ findall_words [] cs)"

definition count_words :: "string \<Rightarrow> int" where
  "count_words text = int (length (findall_words [] text))"

subsection \<open>calculate_keyword_density\<close>

fun count_matches :: "bool \<Rightarrow> string \<Rightarrow> nat \<Rightarrow> char option \<Rightarrow> string \<Rightarrow> nat" where
  \<comment> \<open>\<open>len(re.findall(r'\b' + re.escape(pat) + r'\b', text))\<close>: matches are found left to
      right and do not overlap; \<open>skip\<close> counts the characters still covered by the last match\<close>
  "count_matches ci pat skip prev [] =
     (if skip = 0 \<and> match_word_at ci pat prev [] then 1 else 0)"
| "count_matches ci pat skip prev (c # cs) =
     (if skip = 0 \<and> match_word_at ci pat prev (c # cs)
      then 1 + count_matches ci pat (length pat - 1) (Some c) cs
      else count_matches ci pat (skip - 1) (Some c) cs)"

definition py_truediv :: "int \<Rightarrow> int \<Rightarrow> py_error + rat" where
  \<comment> \<open>\<open>a / b\<close> on Python ints; the quotient is kept exact\<close>
  "py_truediv a b = (if b = 0 then Inl ZeroDivisionError else Inr (of_int a / of_int b))"

definition keyword_count :: "string \<Rightarrow> string list \<Rightarrow> int" where
  \<comment> \<open>the \<open>for keyword in keywords\<close> loop of \<open>calculate_keyword_density\<close>\<close>
  "keyword_count text_lower keywords =
     fold (\<lambda>keyword n. n + int (count_matches False (py_lower keyword) 0 None text_lower))
       keywords 0"

definition calculate_keyword_density :: "string \<Rightarrow> string list \<Rightarrow> py_error + rat" where
  "calculate_keyword_density text keywords =
     (if keywords = [] \<or> text = [] then Inr 0
      else let word_count = count_words text in
        if word_count = 0 then Inr 0
        else py_truediv (keyword_count (py_lower text) keywords) word_count)"

subsection \<open>split_text_into_chunks\<close>

definition py_index :: "int \<Rightarrow> int \<Rightarrow> nat" where
  \<comment> \<open>a slice bound on a sequence of length \<open>n\<close>: negative bounds count from the end, and
      the result is clamped to \<open>0..n\<close>\<close>
  "py_index n i = nat (max 0 (min n (if i < 0 then i + n else i)))"

definition py_slice :: "'a list \<Rightarrow> int \<Rightarrow> int \<Rightarrow> 'a list" where
  \<comment> \<open>\<open>xs[start:end]\<close>\<close>
  "py_slice xs start end =
     (let s = py_index (int (length xs)) start; e = py_index (int (length xs)) end
      in take (e - s) (drop s xs))"

definition py_slice_from :: "'a list \<Rightarrow> int \<Rightarrow> 'a list" where
  \<comment> \<open>\<open>xs[start:]\<close>\<close>
  "py_slice_from xs start = drop (py_index (int (length xs)) start) xs"

definition py_slice_to :: "'a list \<Rightarrow> int \<Rightarrow> 'a list" where
  \<comment> \<open>\<open>xs[:end]\<close>\<close>
  "py_slice_to xs end = take (py_index (int (length xs)) end) xs"

fun rfind_scan :: "string \<Rightarrow> string \<Rightarrow> nat \<Rightarrow> nat \<Rightarrow> int" where
  \<comment> \<open>the highest of the \<open>k\<close> positions from \<open>s\<close> on at which \<open>sub\<close> occurs, or -1\<close>
  "rfind_scan text sub s 0 = -1"
| "rfind_scan text sub s (Suc k) =
     (if take (length sub) (drop (s + k) text) = sub then int (s + k)
      else rfind_scan text sub s k)"

definition py_rfind :: "string \<Rightarrow> string \<Rightarrow> int \<Rightarrow> int \<Rightarrow> int" where
  \<comment> \<open>\<open>text.rfind(sub, start, end)\<close>: the bounds are read as slice bounds, the occurrence
      must lie wholly inside them\<close>
  "py_rfind text sub start end =
     (let n = int (length text);
          e = (if end > n then n else if end < 0 then max 0 (end + n) else end);
          s = (if start < 0 then max 0 (start + n) else start)
      in rfind_scan text sub (nat s) (nat (e - int (length sub) - s + 1)))"

definition chunk_end :: "string \<Rightarrow> int \<Rightarrow> int \<Rightarrow> int" where
  \<comment> \<open>the value of \<open>end\<close> when the chunk is appended: the paragraph break, the sentence
      break, the last space, or the raw window end\<close>
  "chunk_end text max_chars start =
     (let end = start + max_chars;
          paragraph_break = py_rfind text ''\<newline>\<newline>'' start end;
          sentence_break = py_rfind text ''. '' start end
      in if paragraph_break > start + (max_chars div 2) then paragraph_break + 2
         else if sentence_break > start + (max_chars div 3) then sentence_break + 2
         else (let space_position = py_rfind text '' '' start end
               in if space_position > start then space_position + 1 else end))"

partial_function (option)
  split_loop :: "string \<Rightarrow> int \<Rightarrow> int \<Rightarrow> int \<Rightarrow> string list \<Rightarrow> string list option"
where
  "split_loop text max_chars overlap start chunks =
     (if start < int (length text) then
        (if start + max_chars \<ge> int (length text)
         then Some (chunks @ [py_slice_from text start])
         else split_loop text max_chars overlap
                (chunk_end text max_chars start - overlap)
                (chunks @ [py_slice text start (chunk_end text max_chars start)]))
      else Some chunks)"

declare split_loop.simps [code]

definition split_text_into_chunks :: "string \<Rightarrow> int \<Rightarrow> int \<Rightarrow> string list option" where
  \<comment> \<open>\<open>None\<close>: the \<open>while\<close> loop never ends\<close>
  "split_text_into_chunks text max_tokens overlap =
     (let max_chars = max_tokens * 4
      in if int (length text) \<le> max_chars then Some [text]
         else split_loop text max_chars overlap 0 [])"


definition spec_reassemble :: "nat \<Rightarrow> string list \<Rightarrow> string" where
  \<comment> \<open>the specification's reading of a covering decomposition: the first chunk, then every
      later chunk without its first \<open>overlap\<close> characters\<close>
  "spec_reassemble overlap chunks =
     (case chunks of [] \<Rightarrow> [] | c # cs \<Rightarrow> c @ concat (map (drop overlap) cs))"

subsection \<open>retry_with_exponential_backoff\<close>

text \<open>
  The decorated function runs in a world \<open>'w\<close> (the network, the completion service) and
  returns its result or the exception it raised, with the world after the call. The
  wrapper also returns the list of the delays it has waited; \<open>rand k\<close> is the \<open>k\<close>-th
  number drawn from \<open>random.random()\<close>. \<open>sleep\<close> is \<open>time.sleep\<close>: applied to a delay it
  either returns (\<open>None\<close>) or raises, and what it raises inside the \<open>except\<close> block leaves
  the wrapper.
\<close>

function retry_loop ::
  "('w \<Rightarrow> (py_error + 'a) \<times> 'w) \<Rightarrow> int \<Rightarrow> real \<Rightarrow> bool \<Rightarrow> (nat \<Rightarrow> real)
   \<Rightarrow> (real \<Rightarrow> py_error option)
   \<Rightarrow> int \<Rightarrow> real \<Rightarrow> real list \<Rightarrow> 'w \<Rightarrow> (py_error + 'a) \<times> 'w \<times> real list"
where
  "retry_loop func max_retries exponential_base jitter rand sleep num_retries delay sleeps w =
     (case func w of
        (Inr v, w') \<Rightarrow> (Inr v, w', sleeps)
      | (Inl e, w') \<Rightarrow>
          if num_retries + 1 > max_retries then (Inl e, w', sleeps)
          else let delay' = (if jitter
                             then delay * exponential_base * (1 + rand (nat num_retries))
                             else delay * exponential_base)
               in (case sleep delay' of
                     Some sleep_error \<Rightarrow> (Inl sleep_error, w', sleeps)
                   | None \<Rightarrow>
                       retry_loop func max_retries exponential_base jitter rand sleep
                         (num_retries + 1) delay' (sleeps @ [delay']) w'))"
  by pat_completeness auto

termination
  by (relation "measure (\<lambda>(func, max_retries, exponential_base, jitter, rand, sleep, num_retries,
        delay, sleeps, w). nat (max_retries - num_retries))") auto

declare retry_loop.simps [simp del]

definition retry_with_exponential_backoff ::
  "('w \<Rightarrow> (py_error + 'a) \<times> 'w) \<Rightarrow> int \<Rightarrow> real \<Rightarrow> real \<Rightarrow> bool \<Rightarrow> (nat \<Rightarrow> real)
   \<Rightarrow> (real \<Rightarrow> py_error option) \<Rightarrow> 'w \<Rightarrow> (py_error + 'a) \<times> 'w \<times> real list"
where
  "retry_with_exponential_backoff func max_retries initial_delay exponential_base jitter rand sleep w =
     retry_loop func max_retries exponential_base jitter rand sleep 0 initial_delay [] w"



definition stub_sleep :: "real \<Rightarrow> py_error option" where
  \<comment> \<open>a stand-in for \<open>time.sleep\<close> with CPython's two refusals: ValueError on a negative
      delay, OverflowError on a delay that does not fit 64-bit nanoseconds\<close>
  "stub_sleep d =
     (if d < 0 then Some ValueError
      else if d * 10 ^ 9 \<ge> 2 ^ 63 then Some OverflowError
      else None)"







section \<open>Web search and scraping (web_scraper.py)\<close>

text \<open>
  Everything outside the repository is a field of \<open>env\<close>: the HTTP client, the HTML
  parser (\<open>BeautifulSoup(...).select('div.g')\<close>, giving for each result block its \<open>h3\<close>
  text, its first \<open>a\<close> tag and its snippet), the page downloader and text extractor, the
  completion service behind every \<open>LLMChain.run\<close>, the random numbers, the clock,
  \<open>time.sleep\<close> and \<open>json.loads\<close> (which raises JSONDecodeError on a text that is not JSON,
  and RecursionError on one nested too deep). The calls that reach the network thread a
  world \<open>'w\<close>.
\<close>

definition py_startswith :: "string \<Rightarrow> string \<Rightarrow> bool" where
  "py_startswith s pre = (take (length pre) s = pre)"

definition py_endswith :: "string \<Rightarrow> string \<Rightarrow> bool" where
  "py_endswith s suf = (length suf \<le> length s \<and> drop (length s - length suf) s = suf)"

fun py_split_aux :: "string \<Rightarrow> string \<Rightarrow> nat \<Rightarrow> string \<Rightarrow> string list" where
  "py_split_aux sep cur skip [] = [cur]"
| "py_split_aux sep cur skip (c # cs) =
     (if skip > 0 then py_split_aux sep cur (skip - 1) cs
      else if take (length sep) (c # cs) = sep then cur # py_split_aux sep [] (length sep - 1) cs
      else py_split_aux sep (cur @ [c]) 0 cs)"

definition py_split :: "string \<Rightarrow> string \<Rightarrow> string list" where
  \<comment> \<open>\<open>s.split(sep)\<close> for a separator that is not empty\<close>
  "py_split s sep = py_split_aux sep [] 0 s"

definition py_get :: "'a list \<Rightarrow> nat \<Rightarrow> py_error + 'a" where
  \<comment> \<open>\<open>xs[i]\<close> for a literal index \<open>i \<ge> 0\<close>\<close>
  "py_get xs i = (if i < length xs then Inr (xs ! i) else Inl IndexError)"

record response =
  status_code :: int
  body_text :: string

record link_tag =
  href :: "string option"

record result_tag =
  title_element :: "string option"
  link_element :: "link_tag option"
  snippet_element :: "string option"

record search_result =
  sr_title :: string
  sr_link :: string
  sr_snippet :: string

definition clean_link :: "string \<Rightarrow> py_error + string" where
  "clean_link l =
     (if py_startswith l ''/url?q='' then
        (case py_get (py_split l ''/url?q='') 1 of
           Inl e \<Rightarrow> Inl e
         | Inr rest \<Rightarrow> py_get (py_split rest ''&'') 0)
      else Inr l)"

fun collect_results :: "result_tag list \<Rightarrow> search_result list \<Rightarrow> py_error + search_result list" where
  "collect_results [] search_results = Inr search_results"
| "collect_results (r # rs) search_results =
     (case (title_element r, link_element r) of
        (Some t, Some a) \<Rightarrow>
          (case href a of
             Some h \<Rightarrow>
               (case clean_link h of
                  Inl e \<Rightarrow> Inl e
                | Inr l \<Rightarrow> collect_results rs
                    (search_results @
                     [\<lparr>sr_title = t, sr_link = l,
                       sr_snippet = (case snippet_element r of Some s \<Rightarrow> s | None \<Rightarrow> [])\<rparr>]))
           | None \<Rightarrow> collect_results rs search_results)
      | _ \<Rightarrow> collect_results rs search_results)"

datatype chain =
    TrendAnalysis | ResearchSynthesis | OutlineChain | ContentReview | FinalCheck
  | SeoAnalysis | SeoOptimization

record 'w env =
  requests_get :: "string \<Rightarrow> 'w \<Rightarrow> (py_error + response) \<times> 'w"
  soup_select :: "string \<Rightarrow> py_error + result_tag list"
  fetch_url :: "string \<Rightarrow> 'w \<Rightarrow> (py_error + string option) \<times> 'w"
  trafilatura_extract :: "string \<Rightarrow> py_error + string option"
  chain_run :: "chain \<Rightarrow> (string \<times> string) list \<Rightarrow> 'w \<Rightarrow> (py_error + string) \<times> 'w"
  random_random :: "nat \<Rightarrow> real"
  random_choice :: "'w \<Rightarrow> nat"
  strftime :: "string \<Rightarrow> 'w \<Rightarrow> string"
  time_sleep :: "real \<Rightarrow> py_error option"
  json_loads :: "string \<Rightarrow> py_error + json"

definition py_replace_char :: "string \<Rightarrow> char \<Rightarrow> char \<Rightarrow> string" where
  \<comment> \<open>\<open>s.replace(a, b)\<close> for one-character strings\<close>
  "py_replace_char s a b = map (\<lambda>c. if c = a then b else c) s"

definition search_web_body ::
  "'w env \<Rightarrow> string \<Rightarrow> int \<Rightarrow> 'w \<Rightarrow> (py_error + search_result list) \<times> 'w" where
  \<comment> \<open>the undecorated \<open>search_web\<close>: every exception of the \<open>try\<close> block ends in \<open>return []\<close>\<close>
  "search_web_body env query num_results w =
     (case requests_get env
             (''https://www.google.com/search?q='' @ py_replace_char query (CHR '' '') (CHR ''+'')) w of
        (Inl e, w') \<Rightarrow> (Inr [], w')
      | (Inr resp, w') \<Rightarrow>
          if status_code resp \<noteq> 200 then (Inr [], w')
          else (case soup_select env (body_text resp) of
                  Inl e \<Rightarrow> (Inr [], w')
                | Inr tags \<Rightarrow>
                    (case collect_results (py_slice_to tags num_results) [] of
                       Inl e \<Rightarrow> (Inr [], w')
                     | Inr search_results \<Rightarrow> (Inr search_results, w'))))"

definition search_web ::
  "'w env \<Rightarrow> string \<Rightarrow> int \<Rightarrow> 'w \<Rightarrow> (py_error + search_result list) \<times> 'w \<times> real list" where
  \<comment> \<open>\<open>@retry_with_exponential_backoff\<close> with its default arguments\<close>
  "search_web env query num_results w =
     retry_with_exponential_backoff (search_web_body env query num_results) 5 1 2 True
       (random_random env) (time_sleep env) w"

subsection \<open>extract_keywords_from_text\<close>

definition stop_words :: "string list" where
  "stop_words =
     [''a'', ''an'', ''the'', ''and'', ''or'', ''but'', ''is'', ''are'', ''was'', ''were'',
      ''to'', ''of'', ''in'', ''for'', ''with'', ''on'', ''at'', ''by'', ''from'', ''about'',
      ''as'', ''into'', ''like'', ''through'', ''after'', ''over'', ''between'', ''out'',
      ''this'', ''that'', ''these'', ''those'', ''there'', ''here'', ''how'', ''why'',
      ''when'', ''where'', ''who'', ''whom'', ''which'', ''what'', ''would'', ''could'',
      ''should'', ''will'', ''shall'', ''may'', ''might'', ''must'', ''can'', ''then'']"

fun bump :: "(string \<times> int) list \<Rightarrow> string \<Rightarrow> (string \<times> int) list" where
  \<comment> \<open>\<open>freq[k] += 1\<close> or \<open>freq[k] = 1\<close> on a dict, which keeps the order of first insertion\<close>
  "bump [] k = [(k, 1)]"
| "bump ((k', n) # kvs) k = (if k' = k then (k', n + 1) # kvs else (k', n) # bump kvs k)"

definition sorted_by_freq :: "(string \<times> int) list \<Rightarrow> (string \<times> int) list" where
  \<comment> \<open>\<open>sorted(freq.items(), key=lambda x: x[1], reverse=True)\<close>: a stable sort\<close>
  "sorted_by_freq items = sort_key (\<lambda>kv. - snd kv) items"

definition extract_keywords_from_text :: "string \<Rightarrow> int \<Rightarrow> string list" where
  "extract_keywords_from_text t max_keywords =
     (let words = findall_words [] (py_lower t);
          word_freq = fold (\<lambda>word freq.
                        if length word > 3 \<and> word \<notin> set stop_words then bump freq word else freq)
                        words []
      in map fst (py_slice_to (sorted_by_freq word_freq) max_keywords))"

section \<open>Research stage (research_agent.py, config.py)\<close>

definition MAX_RESEARCH_SOURCES :: int where
  "MAX_RESEARCH_SOURCES = 5"

definition FALLBACK_HR_TOPICS :: "string list" where
  "FALLBACK_HR_TOPICS =
     [''Employee Retention Strategies'',
      ''Remote Work Best Practices'',
      ''Diversity and Inclusion in the Workplace'',
      ''Performance Management Systems'',
      ''Employee Wellness Programs'',
      ''HR Technology Trends'',
      ''Recruitment Automation'',
      ''Workplace Culture Development'',
      ''Employee Engagement Strategies'',
      ''HR Compliance Updates'']"

definition get_website_text_content :: "'w env \<Rightarrow> string \<Rightarrow> 'w \<Rightarrow> string \<times> 'w" where
  "get_website_text_content env url w =
     (case fetch_url env url w of
        (Inl e, w') \<Rightarrow> ([], w')
      | (Inr None, w') \<Rightarrow> ([], w')
      | (Inr (Some downloaded), w') \<Rightarrow>
          if downloaded = [] then ([], w')
          else (case trafilatura_extract env downloaded of
                  Inl e \<Rightarrow> ([], w')
                | Inr None \<Rightarrow> ([], w')
                | Inr (Some t) \<Rightarrow> (t, w')))"

fun search_queries ::
  "'w env \<Rightarrow> string list \<Rightarrow> search_result list \<Rightarrow> 'w \<Rightarrow> (py_error + search_result list) \<times> 'w"
where
  \<comment> \<open>the \<open>for query in queries\<close> loop of \<open>search_latest_hr_trends\<close>\<close>
  "search_queries env [] all_results w = (Inr all_results, w)"
| "search_queries env (query # queries) all_results w =
     (case search_web env query 3 w of
        (Inl e, w', sleeps) \<Rightarrow> (Inl e, w')
      | (Inr results, w', sleeps) \<Rightarrow> search_queries env queries (all_results @ results) w')"

fun unique_by_link :: "search_result list \<Rightarrow> string list \<Rightarrow> search_result list" where
  "unique_by_link [] seen_urls = []"
| "unique_by_link (r # rs) seen_urls =
     (if sr_link r \<notin> set seen_urls then r # unique_by_link rs (sr_link r # seen_urls)
      else unique_by_link rs seen_urls)"

definition search_latest_hr_trends :: "'w env \<Rightarrow> 'w \<Rightarrow> (py_error + search_result list) \<times> 'w" where
  "search_latest_hr_trends env w =
     (let current_year = strftime env ''%Y'' w;
          queries = [''latest HR trends '' @ current_year,
                     ''human resources challenges '' @ current_year,
                     ''trending topics in HR '' @ current_year,
                     ''employee engagement strategies'',
                     ''remote work HR challenges'',
                     ''HR technology innovations'']
      in case search_queries env queries [] w of
           (Inl e, w') \<Rightarrow> (Inl e, w')
         | (Inr all_results, w') \<Rightarrow> (Inr (py_slice_to (unique_by_link all_results []) 10), w'))"

fun scrape_multiple_sources :: "'w env \<Rightarrow> string list \<Rightarrow> 'w \<Rightarrow> (string \<times> string) list \<times> 'w" where
  "scrape_multiple_sources env [] w = ([], w)"
| "scrape_multiple_sources env (url # urls) w =
     (case get_website_text_content env url w of
        (content, w') \<Rightarrow>
          (case scrape_multiple_sources env urls w' of
             (results, w'') \<Rightarrow> ((if content \<noteq> [] then [(url, content)] else []) @ results, w'')))"

record source_meta =
  sm_url :: string
  sm_content_length :: int
  sm_extracted_keywords :: "string list option"

record research_data =
  rd_topic :: string
  rd_keywords :: string
  rd_synthesized_research :: "string option"
  rd_source_metadata :: "source_meta list option"
  rd_timestamp :: string

fun combine_research :: "(string \<times> string) list \<Rightarrow> string \<times> source_meta list" where
  \<comment> \<open>the \<open>for url, content in scraped_data\<close> loop of \<open>research_topic\<close>\<close>
  "combine_research [] = ([], [])"
| "combine_research ((u, content) # rest) =
     (case combine_research rest of
        (combined_research, metadata) \<Rightarrow>
          if content \<noteq> [] then
            (''\<newline>\<newline>SOURCE: '' @ u @ ''\<newline>'' @ py_slice_to content 5000 @ ''\<newline>''
               @ combined_research,
             \<lparr>sm_url = u, sm_content_length = int (length content),
               sm_extracted_keywords = Some (extract_keywords_from_text content 5)\<rparr> # metadata)
          else (combined_research, metadata))"

fun synthesize_chunks ::
  "'w env \<Rightarrow> string \<Rightarrow> string \<Rightarrow> string list \<Rightarrow> string \<Rightarrow> 'w \<Rightarrow> (py_error + string) \<times> 'w"
where
  \<comment> \<open>the \<open>for i, chunk in enumerate(research_chunks)\<close> loop of \<open>research_topic\<close>\<close>
  "synthesize_chunks env tp kw [] synthesized w = (Inr synthesized, w)"
| "synthesize_chunks env tp kw (chunk # chunks) synthesized w =
     (case chain_run env ResearchSynthesis
             [(''topic'', tp), (''research_data'', chunk), (''keywords'', kw)] w of
        (Inl e, w') \<Rightarrow> (Inl e, w')
      | (Inr chunk_synthesis, w') \<Rightarrow>
          synthesize_chunks env tp kw chunks (synthesized @ chunk_synthesis @ ''\<newline>\<newline>'') w')"

definition research_topic ::
  "'w env \<Rightarrow> string \<Rightarrow> string \<Rightarrow> 'w \<Rightarrow> ((py_error + research_data) \<times> 'w) option" where
  \<comment> \<open>\<open>None\<close>: the call never returns\<close>
  "research_topic env tp kw w =
     (let search_query = (if kw \<noteq> [] then tp @ '' '' @ kw else tp) in
      case search_web env search_query MAX_RESEARCH_SOURCES w of
        (Inl e, w1, sleeps) \<Rightarrow> Some (Inl e, w1)
      | (Inr search_results, w1, sleeps) \<Rightarrow>
          (case scrape_multiple_sources env (map sr_link search_results) w1 of
             (scraped_data, w2) \<Rightarrow>
               (case combine_research scraped_data of
                  (combined_research, metadata) \<Rightarrow>
                    (case split_text_into_chunks combined_research 4000 200 of
                       None \<Rightarrow> None
                     | Some research_chunks \<Rightarrow>
                         (case synthesize_chunks env tp kw research_chunks [] w2 of
                            (Inl e, w3) \<Rightarrow> Some (Inl e, w3)
                          | (Inr synthesized, w3) \<Rightarrow>
                              Some (Inr \<lparr>rd_topic = tp, rd_keywords = kw,
                                         rd_synthesized_research = Some synthesized,
                                         rd_source_metadata = Some metadata,
                                         rd_timestamp = strftime env ''%Y-%m-%d %H:%M:%S'' w3\<rparr>,
                                    w3))))))"

definition py_strip :: "string \<Rightarrow> string" where
  \<comment> \<open>\<open>s.strip()\<close>\<close>
  "py_strip s = rev (dropWhile is_space (rev (dropWhile is_space s)))"

fun py_join :: "string \<Rightarrow> string list \<Rightarrow> string" where
  \<comment> \<open>\<open>sep.join(xs)\<close>\<close>
  "py_join sep [] = []"
| "py_join sep [x] = x"
| "py_join sep (x # y # ys) = x @ sep @ py_join sep (y # ys)"

definition pick :: "'a list \<Rightarrow> nat \<Rightarrow> 'a" where
  \<comment> \<open>\<open>random.choice(xs)\<close> on a list that is not empty, \<open>n\<close> being the random draw\<close>
  "pick xs n = xs ! (n mod length xs)"

definition research_selected ::
  "'w env \<Rightarrow> string \<Rightarrow> 'w \<Rightarrow> ((py_error + string \<times> research_data) \<times> 'w) option" where
  \<comment> \<open>\<open>return selected_topic, self.research_topic(selected_topic)\<close>\<close>
  "research_selected env selected_topic w =
     (case research_topic env selected_topic [] w of
        None \<Rightarrow> None
      | Some (Inl e, w') \<Rightarrow> Some (Inl e, w')
      | Some (Inr research, w') \<Rightarrow> Some (Inr (selected_topic, research), w'))"

definition find_trending_try ::
  "'w env \<Rightarrow> 'w \<Rightarrow> ((py_error + string \<times> research_data) \<times> 'w) option" where
  \<comment> \<open>the \<open>try\<close> block of \<open>find_trending_topic\<close>\<close>
  "find_trending_try env w =
     (case search_latest_hr_trends env w of
        (Inl e, w1) \<Rightarrow> Some (Inl e, w1)
      | (Inr trend_results, w1) \<Rightarrow>
          if trend_results = [] then
            research_selected env (pick FALLBACK_HR_TOPICS (random_choice env w1)) w1
          else
            (case scrape_multiple_sources env (map sr_link (py_slice_to trend_results 5)) w1 of
               (scraped_data, w2) \<Rightarrow>
                 (case chain_run env TrendAnalysis
                         [(''trend_data'',
                           py_join ''\<newline>\<newline>''
                             (map (\<lambda>(u, content). ''Source: '' @ u @ ''\<newline>'' @ py_slice_to content 3000)
                                scraped_data))] w2 of
                    (Inl e, w3) \<Rightarrow> Some (Inl e, w3)
                  | (Inr answer, w3) \<Rightarrow> research_selected env (py_strip answer) w3)))"

definition find_trending_topic ::
  "'w env \<Rightarrow> 'w \<Rightarrow> ((py_error + string \<times> research_data) \<times> 'w) option" where
  "find_trending_topic env w =
     (case find_trending_try env w of
        None \<Rightarrow> None
      | Some (Inr found, w') \<Rightarrow> Some (Inr found, w')
      | Some (Inl e, w') \<Rightarrow>
          research_selected env (pick FALLBACK_HR_TOPICS (random_choice env w')) w')"

section \<open>Test doubles\<close>

definition stub_json_loads :: "string \<Rightarrow> py_error + json" where
  \<comment> \<open>answers as \<open>json.loads\<close> does on the texts the test doubles produce: two small
      documents, 1200 opening brackets (RecursionError), and prose (JSONDecodeError)\<close>
  \<open>stub_json_loads s =
     (if s = ''{"overall_score": 90}'' then Inr (JObject [(''overall_score'', JInt 90)])
      else if s = ''{"overall_score": 40}'' then Inr (JObject [(''overall_score'', JInt 40)])
      else if s = replicate 1200 (CHR ''['') then Inl RecursionError
      else Inl JSONDecodeError)\<close>

definition stub_env :: "(chain \<Rightarrow> (string \<times> string) list \<Rightarrow> py_error + string) \<Rightarrow> int \<Rightarrow> nat env" where
  \<comment> \<open>a deterministic test double: the search answers with the given HTTP status and two
      result blocks, every page has the same text, the completion service answers as
      \<open>llm\<close> says; the world counts the external calls\<close>
  "stub_env llm status =
     \<lparr>requests_get = (\<lambda>u w. (Inr \<lparr>status_code = status, body_text = ''<html>''\<rparr>, Suc w)),
      soup_select = (\<lambda>html. Inr
        [\<lparr>title_element = Some ''Remote work'',
          link_element = Some \<lparr>href = Some ''/url?q=https://a.example/remote&sa=U''\<rparr>,
          snippet_element = None\<rparr>,
         \<lparr>title_element = Some ''Hybrid teams'',
          link_element = Some \<lparr>href = Some ''https://b.example/hybrid''\<rparr>,
          snippet_element = Some ''Hybrid teams in practice''\<rparr>]),
      fetch_url = (\<lambda>u w. (Inr (Some ''<p>page</p>''), Suc w)),
      trafilatura_extract = (\<lambda>d. Inr (Some ''Remote teams need clear remote policies.'')),
      chain_run = (\<lambda>c args w. (llm c args, Suc w)),
      random_random = (\<lambda>k. 0),
      random_choice = (\<lambda>w. w),
      strftime = (\<lambda>fmt w. if fmt = ''%Y'' then ''2025'' else ''2025-01-01 00:00:00''),
      time_sleep = stub_sleep,
      json_loads = stub_json_loads\<rparr>"

definition llm_down :: "chain \<Rightarrow> (string \<times> string) list \<Rightarrow> py_error + string" where
  "llm_down c args = Inl (ServiceError ''rate limit'')"

definition llm_no_trend :: "chain \<Rightarrow> (string \<times> string) list \<Rightarrow> py_error + string" where
  "llm_no_trend c args =
     (if c = TrendAnalysis then Inl (ServiceError ''rate limit'') else Inr ''Notes.'')"

section \<open>Planning stage (planning_agent.py)\<close>

definition dict_get :: "(string \<times> json) list \<Rightarrow> string \<Rightarrow> json \<Rightarrow> json" where
  \<comment> \<open>\<open>d.get(key, default)\<close>\<close>
  "dict_get d key dflt = (case map_of d key of Some v \<Rightarrow> v | None \<Rightarrow> dflt)"



definition clean_json :: "string \<Rightarrow> string" where
  \<comment> \<open>strip, drop a leading \<open>```json\<close> and a trailing \<open>```\<close>, strip again\<close>
  "clean_json json_str =
     (let c1 = py_strip json_str;
          c2 = (if py_startswith c1 ''```json'' then py_slice_from c1 7 else c1);
          c3 = (if py_endswith c2 ''```'' then py_slice_to c2 (-3) else c2)
      in py_strip c3)"











section \<open>Optimization stage (seo_agent.py)\<close>

fun py_contains :: "string \<Rightarrow> string \<Rightarrow> bool" where
  \<comment> \<open>\<open>sub in s\<close>\<close>
  "py_contains sub [] = (sub = [])"
| "py_contains sub (c # cs) = (take (length sub) (c # cs) = sub \<or> py_contains sub cs)"

fun dict_set :: "(string \<times> json) list \<Rightarrow> string \<Rightarrow> json \<Rightarrow> (string \<times> json) list" where
  \<comment> \<open>\<open>d[key] = v\<close>\<close>
  "dict_set [] key v = [(key, v)]"
| "dict_set ((k, v') # d) key v = (if k = key then (k, v) # d else (k, v') # dict_set d key v)"

fun str_nat :: "nat \<Rightarrow> string" where
  \<comment> \<open>\<open>str(n)\<close>\<close>
  "str_nat n = (if n < 10 then [char_of (48 + n)]
                else str_nat (n div 10) @ [char_of (48 + n mod 10)])"

declare str_nat.simps [simp del]

definition add_density :: "json \<Rightarrow> json \<Rightarrow> py_error + json" where
  \<comment> \<open>\<open>if "keyword_analysis" in analysis:
        analysis["keyword_analysis"]["calculated_keyword_density"] = keyword_density\<close>\<close>
  "add_density analysis keyword_density =
     (case analysis of
        JObject d \<Rightarrow>
          (case map_of d ''keyword_analysis'' of
             None \<Rightarrow> Inr analysis
           | Some (JObject inner) \<Rightarrow>
               Inr (JObject (dict_set d ''keyword_analysis''
                      (JObject (dict_set inner ''calculated_keyword_density'' keyword_density))))
           | Some _ \<Rightarrow> Inl TypeError)
      | JArray xs \<Rightarrow> if JString ''keyword_analysis'' \<in> set xs then Inl TypeError else Inr analysis
      | JString s \<Rightarrow> if py_contains ''keyword_analysis'' s then Inl TypeError else Inr analysis
      | _ \<Rightarrow> Inl TypeError)"

definition parse_failed_analysis :: "json \<Rightarrow> string \<Rightarrow> json" where
  \<comment> \<open>the analysis returned when the answer is not JSON even after cleaning\<close>
  "parse_failed_analysis keyword_density content =
     JObject
       [(''keyword_analysis'', JObject
          [(''primary_keyword_density'', keyword_density),
           (''keyword_distribution'', JString ''Unable to assess''),
           (''suggestions'', JArray [JString ''Ensure keywords are distributed throughout the content''])]),
        (''structure_analysis'', JObject
          [(''heading_quality'', JString ''Unable to assess''),
           (''content_organization'', JString ''Unable to assess''),
           (''suggestions'', JArray [JString ''Review heading structure'', JString ''Ensure logical content flow''])]),
        (''content_quality'', JObject
          [(''readability_score'', JString ''Unable to assess''),
           (''content_depth'', JString (''Content contains '' @ str_nat (nat (count_words content)) @ '' words'')),
           (''suggestions'', JArray [JString ''Ensure content is comprehensive'', JString ''Check for readability''])]),
        (''overall_score'', JInt 50),
        (''priority_improvements'', JArray [JString ''Optimize keyword usage'', JString ''Review content structure''])]"

definition error_analysis :: "json \<Rightarrow> string \<Rightarrow> json" where
  \<comment> \<open>the analysis returned by the outer \<open>except Exception\<close>\<close>
  "error_analysis keyword_density content =
     JObject
       [(''keyword_analysis'', JObject
          [(''primary_keyword_density'', keyword_density),
           (''keyword_distribution'', JString ''Error in analysis''),
           (''suggestions'', JArray [JString ''Review keyword usage manually''])]),
        (''structure_analysis'', JObject
          [(''heading_quality'', JString ''Error in analysis''),
           (''content_organization'', JString ''Error in analysis''),
           (''suggestions'', JArray [JString ''Review heading structure manually''])]),
        (''content_quality'', JObject
          [(''readability_score'', JString ''Error in analysis''),
           (''content_depth'', JString (''Content contains '' @ str_nat (nat (count_words content)) @ '' words'')),
           (''suggestions'', JArray [JString ''Review content manually''])]),
        (''overall_score'', JInt 0),
        (''priority_improvements'', JArray [JString ''Retry SEO analysis''])]"

definition keyword_list_of :: "string \<Rightarrow> string list" where
  \<comment> \<open>\<open>[kw.strip() for kw in keywords.split(",")] if keywords else []\<close>\<close>
  "keyword_list_of kw = (if kw \<noteq> [] then map py_strip (py_split kw '','') else [])"

definition analyze_seo ::
  "'w env \<Rightarrow> string \<Rightarrow> string \<Rightarrow> string \<Rightarrow> 'w \<Rightarrow> (py_error + json) \<times> 'w" where
  \<comment> \<open>every exception of the \<open>try\<close> block gives the error analysis; were
      \<open>calculate_keyword_density\<close> to raise, the handler itself would fail on the unbound
      \<open>keyword_density\<close>\<close>
  "analyze_seo env content tp kw w =
     (let keyword_list = keyword_list_of kw in
      case (if keyword_list \<noteq> []
            then map_sum id (\<lambda>d. JFloat (Finite d)) (calculate_keyword_density content keyword_list)
            else Inr (JInt 0)) of
        Inl e \<Rightarrow> (Inl UnboundLocalError, w)
      | Inr keyword_density \<Rightarrow>
          (case chain_run env SeoAnalysis
                  [(''topic'', tp), (''keywords'', kw), (''content'', content)] w of
             (Inl e, w') \<Rightarrow> (Inr (error_analysis keyword_density content), w')
           | (Inr analysis_json_str, w') \<Rightarrow>
               (case json_loads env analysis_json_str of
                  Inr analysis \<Rightarrow>
                    (case analysis of
                       JObject d \<Rightarrow>
                         (case add_density analysis keyword_density of
                            Inl e \<Rightarrow> (Inr (error_analysis keyword_density content), w')
                          | Inr analysis' \<Rightarrow> (Inr analysis', w'))
                     | _ \<Rightarrow> (Inr (error_analysis keyword_density content), w'))
                | Inl e \<Rightarrow>
                    if e \<noteq> JSONDecodeError
                    then (Inr (error_analysis keyword_density content), w')
                    else (case json_loads env (clean_json analysis_json_str) of
                            Inr analysis \<Rightarrow>
                              (case add_density analysis keyword_density of
                                 Inl e \<Rightarrow> (Inr (error_analysis keyword_density content), w')
                               | Inr analysis' \<Rightarrow> (Inr analysis', w'))
                          | Inl e' \<Rightarrow>
                              if e' \<noteq> JSONDecodeError
                              then (Inr (error_analysis keyword_density content), w')
                              else (Inr (parse_failed_analysis keyword_density content), w')))))"

definition related_topics :: "(string \<times> string) list" where
  "related_topics =
     [(''Employee Retention'', ''employee retention strategies''),
      (''Remote Work'', ''remote work best practices''),
      (''Diversity and Inclusion'', ''diversity and inclusion in the workplace''),
      (''Performance Management'', ''effective performance management''),
      (''Employee Wellness'', ''employee wellness programs''),
      (''HR Technology'', ''hr technology trends''),
      (''Recruitment'', ''recruitment best practices''),
      (''Employee Engagement'', ''employee engagement strategies''),
      (''Workplace Culture'', ''building positive workplace culture''),
      (''Leadership Development'', ''leadership development programs'')]"

fun re_search_word :: "string \<Rightarrow> nat \<Rightarrow> char option \<Rightarrow> string \<Rightarrow> (nat \<times> nat) option" where
  \<comment> \<open>\<open>re.search(r'\b' + re.escape(pat) + r'\b', text, re.IGNORECASE)\<close>: the span of the
      leftmost match; \<open>i\<close> is the position of the rest of the text\<close>
  "re_search_word pat i prev [] =
     (if match_word_at True pat prev [] then Some (i, i + length pat) else None)"
| "re_search_word pat i prev (c # cs) =
     (if match_word_at True pat prev (c # cs) then Some (i, i + length pat)
      else re_search_word pat (Suc i) (Some c) cs)"

definition link_suggestion :: "string \<Rightarrow> string \<Rightarrow> string" where
  "link_suggestion link_text link_topic =
     '' [INTERNAL LINK SUGGESTION: '' @ link_text @ '' | '' @ link_topic @ '']''"

definition insert_suggestion :: "string \<Rightarrow> nat \<Rightarrow> nat \<Rightarrow> string \<Rightarrow> string \<Rightarrow> string" where
  \<comment> \<open>\<open>modified[:start] + f"{modified[start:end]} [INTERNAL LINK SUGGESTION: ...]" + modified[end:]\<close>\<close>
  "insert_suggestion modified start end link_text link_topic =
     py_slice_to modified (int start)
     @ (py_slice modified (int start) (int end) @ link_suggestion link_text link_topic)
     @ py_slice_from modified (int end)"

definition link_step :: "string \<times> string \<Rightarrow> string \<Rightarrow> string \<Rightarrow> string" where
  \<comment> \<open>the body of the \<open>for link_text, link_topic in related_topics.items()\<close> loop: the
      value of \<open>modified_content\<close> after one iteration\<close>
  "link_step entry tp modified =
     (if py_contains (py_lower (fst entry)) (py_lower tp) then modified
      else (case re_search_word (fst entry) 0 None modified of
              Some (start, end) \<Rightarrow>
                if \<not> py_contains ''[INTERNAL LINK SUGGESTION'' modified
                then insert_suggestion modified start end (fst entry) (snd entry)
                else modified
            | None \<Rightarrow> modified))"

fun add_links_loop :: "(string \<times> string) list \<Rightarrow> string \<Rightarrow> string \<Rightarrow> string" where
  "add_links_loop [] tp modified = modified"
| "add_links_loop (entry # rest) tp modified = add_links_loop rest tp (link_step entry tp modified)"

definition add_internal_linking_suggestions :: "string \<Rightarrow> string \<Rightarrow> string" where
  "add_internal_linking_suggestions content tp = add_links_loop related_topics tp content"

definition heading_at :: "string \<Rightarrow> (string \<times> string \<times> nat) option" where
  \<comment> \<open>\<open>(#+)\s+(.*?)$\<close> with \<open>re.MULTILINE\<close>, tried at the start of \<open>rest\<close>: the markers, the
      heading text (up to the end of the line) and the length of the match\<close>
  "heading_at rest =
     (let markers = takeWhile (\<lambda>c. c = CHR ''#'') rest;
          r1 = dropWhile (\<lambda>c. c = CHR ''#'') rest;
          spaces = takeWhile is_space r1;
          heading_text = takeWhile (\<lambda>c. c \<noteq> CHR 0x0A) (dropWhile is_space r1)
      in if markers \<noteq> [] \<and> spaces \<noteq> []
         then Some (markers, heading_text, length markers + length spaces + length heading_text)
         else None)"

fun find_headings :: "nat \<Rightarrow> string \<Rightarrow> (string \<times> string) list" where
  \<comment> \<open>\<open>re.finditer(heading_pattern, content, re.MULTILINE)\<close>: the groups of the matches,
      found left to right; \<open>skip\<close> counts the characters still covered by the last match\<close>
  "find_headings skip [] = []"
| "find_headings skip (c # cs) =
     (if skip > 0 then find_headings (skip - 1) cs
      else (case heading_at (c # cs) of
              Some (markers, heading_text, n) \<Rightarrow> [(markers, heading_text)]
            | None \<Rightarrow> [])
           @ find_headings (case heading_at (c # cs) of Some (markers, heading_text, n) \<Rightarrow> n - 1
                            | None \<Rightarrow> 0) cs)"

fun py_replace_from :: "string \<Rightarrow> string \<Rightarrow> nat \<Rightarrow> string \<Rightarrow> string" where
  "py_replace_from old new skip [] = []"
| "py_replace_from old new skip (c # cs) =
     (if skip > 0 then py_replace_from old new (skip - 1) cs
      else if take (length old) (c # cs) = old then new @ py_replace_from old new (length old - 1) cs
      else c # py_replace_from old new 0 cs)"

definition py_replace :: "string \<Rightarrow> string \<Rightarrow> string \<Rightarrow> string" where
  \<comment> \<open>\<open>s.replace(old, new)\<close> for an \<open>old\<close> that is not empty\<close>
  "py_replace s old new = py_replace_from old new 0 s"

definition upper_char :: "char \<Rightarrow> char" where
  "upper_char c = (if is_lower c then char_of (code_point c - 32) else c)"

definition py_capitalize :: "string \<Rightarrow> string" where
  \<comment> \<open>\<open>s.capitalize()\<close>: the first character in title case, the others in lower case. The
      sharp s becomes \<open>Ss\<close>; the title case of the micro sign and of \<open>U+00FF\<close> lies beyond
      Latin-1, and the model leaves these two characters as they are\<close>
  "py_capitalize s =
     (case s of
        [] \<Rightarrow> []
      | c # cs \<Rightarrow> (if code_point c = 223 then ''Ss'' else [upper_char c]) @ py_lower cs)"

definition heading_step :: "string list \<Rightarrow> string \<times> string \<Rightarrow> string \<Rightarrow> string" where
  \<comment> \<open>the body of the \<open>for match in re.finditer(...)\<close> loop of \<open>_optimize_headings\<close>: the
      value of \<open>modified_content\<close> after one iteration\<close>
  "heading_step keyword_list groups modified =
     (let heading_markers = fst groups; heading_text = snd groups;
          original_heading = heading_markers @ '' '' @ heading_text;
          in_heading = (\<lambda>keyword. py_contains (py_lower keyword) (py_lower heading_text))
      in if \<not> list_ex in_heading keyword_list
            \<and> heading_markers \<in> set [''#'', ''##'', ''###'']
            \<and> length heading_text > 3
         then (case keyword_list of
                 [] \<Rightarrow> modified
               | first # others \<Rightarrow>
                   (let most_relevant =
                          (case find in_heading keyword_list of Some k \<Rightarrow> k | None \<Rightarrow> first)
                    in if length heading_text < 50
                       then py_replace modified original_heading
                              (heading_markers @ '' '' @ heading_text @ '': ''
                                 @ py_capitalize most_relevant)
                       else modified))
         else modified)"

fun apply_headings :: "string list \<Rightarrow> (string \<times> string) list \<Rightarrow> string \<Rightarrow> string" where
  "apply_headings keyword_list [] modified = modified"
| "apply_headings keyword_list (groups # rest) modified =
     apply_headings keyword_list rest (heading_step keyword_list groups modified)"

definition optimize_headings :: "string \<Rightarrow> string \<Rightarrow> string \<Rightarrow> string" where
  "optimize_headings content tp kw =
     (let keyword_list = keyword_list_of kw;
          keyword_list = (if keyword_list = [] \<and> tp \<noteq> [] then [tp] else keyword_list)
      in if keyword_list = [] then content
         else apply_headings keyword_list (find_headings 0 content) content)"

definition float_gt :: "pyfloat \<Rightarrow> rat \<Rightarrow> bool" where
  \<comment> \<open>\<open>x > q\<close> for a float \<open>x\<close>\<close>
  "float_gt x q = (case x of Finite v \<Rightarrow> v > q | PosInf \<Rightarrow> True | NegInf \<Rightarrow> False | NaN \<Rightarrow> False)"

definition score_above_85 :: "json \<Rightarrow> py_error + bool" where
  \<comment> \<open>\<open>seo_analysis.get("overall_score", 0) > 85\<close>: AttributeError when the analysis is not
      a dict, TypeError when the score is not a number\<close>
  "score_above_85 seo_analysis =
     (case seo_analysis of
        JObject d \<Rightarrow>
          (case dict_get d ''overall_score'' (JInt 0) of
             JInt n \<Rightarrow> Inr (n > 85)
           | JFloat x \<Rightarrow> Inr (float_gt x 85)
           | JBool b \<Rightarrow> Inr False
           | _ \<Rightarrow> Inl TypeError)
      | _ \<Rightarrow> Inl AttributeError)"

definition optimize_content :: "'w env \<Rightarrow> string \<Rightarrow> string \<Rightarrow> string \<Rightarrow> 'w \<Rightarrow> string \<times> 'w" where
  \<comment> \<open>every exception of the \<open>try\<close> block ends in \<open>return content\<close>\<close>
  "optimize_content env content tp kw w =
     (case analyze_seo env content tp kw w of
        (Inl e, w1) \<Rightarrow> (content, w1)
      | (Inr seo_analysis, w1) \<Rightarrow>
          (case score_above_85 seo_analysis of
             Inl e \<Rightarrow> (content, w1)
           | Inr True \<Rightarrow>
               (optimize_headings (add_internal_linking_suggestions content tp) tp kw, w1)
           | Inr False \<Rightarrow>
               (case chain_run env SeoOptimization
                       [(''topic'', tp), (''keywords'', kw), (''content'', content)] w1 of
                  (Inl e, w2) \<Rightarrow> (content, w2)
                | (Inr optimized_content, w2) \<Rightarrow> (optimized_content, w2))))"

definition llm_seo :: "string \<Rightarrow> chain \<Rightarrow> (string \<times> string) list \<Rightarrow> py_error + string" where
  \<comment> \<open>a completion service that gives \<open>verdict\<close> as its SEO analysis and rewrites every
      document to one line\<close>
  "llm_seo verdict c args = (if c = SeoAnalysis then Inr verdict else Inr ''Rewritten.'')"

definition sample_post :: string where
  "sample_post = ''## Tips\<newline>\<newline>Remote work and employee engagement.''"

section \<open>Review stage (review_agent.py)\<close>

definition typos :: "(string \<times> string) list" where
  "typos =
     [(''teh '', ''the ''),
      (''adn '', ''and ''),
      (''waht '', ''what ''),
      (''taht '', ''that ''),
      (''thier '', ''their ''),
      (''recieve'', ''receive''),
      (''alot '', ''a lot ''),
      (''its '', ''it's ''),
      (''occurr'', ''occur''),
      (''managment'', ''management''),
      (''accomodat'', ''accommodat''),
      (''enviroment'', ''environment'')]"

fun re_sub_word :: "string \<Rightarrow> string \<Rightarrow> nat \<Rightarrow> char option \<Rightarrow> string \<Rightarrow> string" where
  \<comment> \<open>\<open>re.sub(r'\b' + re.escape(pat) + r'\b', repl, text, flags=re.IGNORECASE)\<close> for a
      \<open>pat\<close> that is not empty: the matches are found left to right and do not overlap;
      \<open>skip\<close> counts the characters still covered by the last match\<close>
  "re_sub_word pat repl skip prev [] = []"
| "re_sub_word pat repl skip prev (c # cs) =
     (if skip > 0 then re_sub_word pat repl (skip - 1) (Some c) cs
      else if match_word_at True pat prev (c # cs)
           then repl @ re_sub_word pat repl (length pat - 1) (Some c) cs
           else c # re_sub_word pat repl 0 (Some c) cs)"

definition flush_run :: "char \<Rightarrow> nat \<Rightarrow> nat \<Rightarrow> nat \<Rightarrow> string" where
  \<comment> \<open>a run of \<open>run\<close> characters \<open>ch\<close>, cut to \<open>keep\<close> when it has \<open>least\<close> or more\<close>
  "flush_run ch least keep run = replicate (if run \<ge> least then keep else run) ch"

fun squeeze :: "char \<Rightarrow> nat \<Rightarrow> nat \<Rightarrow> nat \<Rightarrow> string \<Rightarrow> string" where
  \<comment> \<open>\<open>re.sub(ch{least,}, ch * keep, text)\<close>: every maximal run of \<open>least\<close> or more \<open>ch\<close>
      becomes \<open>keep\<close> of them; \<open>run\<close> is the length of the run being read\<close>
  "squeeze ch least keep run [] = flush_run ch least keep run"
| "squeeze ch least keep run (c # cs) =
     (if c = ch then squeeze ch least keep (Suc run) cs
      else flush_run ch least keep run @ c # squeeze ch least keep 0 cs)"

definition is_ascii_letter :: "char \<Rightarrow> bool" where
  \<comment> \<open>the class \<open>[A-Za-z]\<close>\<close>
  "is_ascii_letter c = (let n = code_point c in in_range n 65 90 \<or> in_range n 97 122)"

fun space_after_period :: "string \<Rightarrow> string" where
  \<comment> \<open>\<open>re.sub(r'\.(?=[A-Za-z])', '. ', text)\<close>\<close>
  "space_after_period [] = []"
| "space_after_period (c # cs) =
     (if c = CHR ''.'' \<and> (case cs of [] \<Rightarrow> False | d # _ \<Rightarrow> is_ascii_letter d)
      then ''. '' @ space_after_period cs
      else c # space_after_period cs)"

definition fix_basic_issues :: "string \<Rightarrow> string" where
  "fix_basic_issues content =
     (let fixed1 = fold (\<lambda>entry fixed. re_sub_word (fst entry) (snd entry) 0 None fixed)
                     typos content;
          fixed2 = squeeze (CHR '' '') 2 1 0 fixed1;
          fixed3 = squeeze (CHR 0x0A) 3 2 0 fixed2
      in space_after_period fixed3)"

definition times_0_9 :: "int \<Rightarrow> rat" where
  \<comment> \<open>\<open>initial_word_count * 0.9\<close>. The code computes the product in double precision;
      compared with an integer word count it gives the same answer as the exact product
      for every word count below \<open>2^48\<close>\<close>
  "times_0_9 n = of_int n * (9 / 10)"

definition review_content :: "'w env \<Rightarrow> string \<Rightarrow> 'w \<Rightarrow> (py_error + string) \<times> 'w" where
  \<comment> \<open>every exception of the \<open>try\<close> block ends in \<open>return self._fix_basic_issues(content)\<close>\<close>
  "review_content env content w =
     (let initial_word_count = count_words content in
      case chain_run env ContentReview [(''content'', content)] w of
        (Inl e, w1) \<Rightarrow> (Inr (fix_basic_issues content), w1)
      | (Inr reviewed_content, w1) \<Rightarrow>
          (case chain_run env FinalCheck [(''content'', reviewed_content)] w1 of
             (Inl e, w2) \<Rightarrow> (Inr (fix_basic_issues content), w2)
           | (Inr final_content, w2) \<Rightarrow>
               if of_int (count_words final_content) < times_0_9 initial_word_count
               then (Inr (fix_basic_issues content), w2)
               else (Inr final_content, w2)))"

definition llm_cutting :: "chain \<Rightarrow> (string \<times> string) list \<Rightarrow> py_error + string" where
  \<comment> \<open>a completion service whose first review pass returns its input and whose final
      check cuts the document to one word\<close>
  "llm_cutting c args =
     (if c = FinalCheck then Inr ''Done.''
      else Inr (case map_of args ''content'' of Some d \<Rightarrow> d | None \<Rightarrow> []))"

definition draft_text :: string where
  "draft_text = ''Teh  team adn its plan.Good managment\<newline>\<newline>\<newline>\<newline>ends''"

section \<open>Properties\<close>

subsection \<open>Keyword density\<close>

lemma count_words_empty: "count_words [] = 0"
  by (simp add: count_words_def)

text \<open>
  C9. For every text and every keyword list, the density of an empty keyword list is 0,
  the density of the empty text is 0, a text without words has density 0, and the
  function always returns a number: the division by the word count never raises
  ZeroDivisionError.
\<close>

theorem keyword_density_guarded:
  "calculate_keyword_density text [] = Inr 0
   \<and> calculate_keyword_density [] keywords = Inr 0
   \<and> (count_words text = 0 \<longrightarrow> calculate_keyword_density text keywords = Inr 0)
   \<and> (\<exists>d. calculate_keyword_density text keywords = Inr d)"
  by (simp add: calculate_keyword_density_def py_truediv_def Let_def)

theorem keyword_density_guarded_witness:
  "count_words ''... !!'' = 0
   \<and> calculate_keyword_density ''... !!'' [''remote''] = Inr 0
   \<and> calculate_keyword_density ''Remote work. remote'' [''remote''] = Inr (2 / 3)"
proof -
  have w: "count_words ''... !!'' = 0"
    by (simp add: count_words_def is_word_def in_range_def code_point_def)
  have d: "calculate_keyword_density ''Remote work. remote'' [''remote''] = Inr (2 / 3)"
    by code_simp
  from keyword_density_guarded [of "''... !!''" "[''remote'']"] w d show ?thesis
    by simp
qed

subsection \<open>Chunk splitting\<close>

text \<open>
  The loop rewinds \<open>start\<close> to \<open>end - overlap\<close> without comparing it with the previous
  \<open>start\<close>. A position that is rewound onto itself is never left.
\<close>

lemma split_loop_fixed_point:
  assumes inside: "start < int (length t)" "start + max_chars < int (length t)"
    and fixed: "chunk_end t max_chars start - overlap = start"
  shows "split_loop t max_chars overlap start chunks = None"
proof (cases "split_loop t max_chars overlap start chunks")
  case None
  then show ?thesis .
next
  case (Some y)
  have "\<not> (start < int (length t) \<and> start + max_chars < int (length t)
           \<and> chunk_end t max_chars start - overlap = start)"
  proof (rule split_loop.raw_induct
      [where P = "\<lambda>t m ov s cs y. \<not> (s < int (length t) \<and> s + m < int (length t)
                                          \<and> chunk_end t m s - ov = s)", OF _ Some])
    fix f t m ov s cs y
    assume IH: "\<And>t m ov s cs y. f t m ov s cs = Some y \<Longrightarrow>
                  \<not> (s < int (length t) \<and> s + m < int (length t) \<and> chunk_end t m s - ov = s)"
      and body: "(if s < int (length t) then
          (if s + m \<ge> int (length t)
           then Some (cs @ [py_slice_from t s])
           else f t m ov (chunk_end t m s - ov) (cs @ [py_slice t s (chunk_end t m s)]))
        else Some cs) = Some y"
    show "\<not> (s < int (length t) \<and> s + m < int (length t) \<and> chunk_end t m s - ov = s)"
    proof
      assume a: "s < int (length t) \<and> s + m < int (length t) \<and> chunk_end t m s - ov = s"
      with body have "f t m ov s (cs @ [py_slice t s (chunk_end t m s)]) = Some y"
        by simp
      from IH[OF this] a show False by simp
    qed
  qed
  with inside fixed show ?thesis by simp
qed

lemma split_text_small_never_returns: "split_text_into_chunks ''a bbbbbbbbbbbb'' 2 2 = None"
proof -
  have e: "chunk_end ''a bbbbbbbbbbbb'' 8 0 - 2 = 0" by code_simp
  have "split_loop ''a bbbbbbbbbbbb'' 8 2 0 [] = None"
    by (rule split_loop_fixed_point) (simp_all add: e)
  then show ?thesis by (simp add: split_text_into_chunks_def)
qed

text \<open>
  With the default parameters (4000 tokens, 200 characters of overlap) the window is
  16000 characters long. Once \<open>start\<close> is negative and the text is longer than the
  window, every \<open>rfind\<close> looks at an empty range and answers -1, which passes the test
  \<open>space_position > start\<close>: \<open>end\<close> becomes 0 and \<open>start\<close> becomes \<open>-overlap\<close>, for ever.
\<close>

lemma rfind_scan_absent:
  assumes "sub \<noteq> []" "hd sub \<notin> set t"
  shows "rfind_scan t sub s k = -1"
proof (induction k)
  case 0
  show ?case by simp
next
  case (Suc k)
  have "take (length sub) (drop (s + k) t) \<noteq> sub"
  proof
    assume eq: "take (length sub) (drop (s + k) t) = sub"
    from assms(1) have "hd sub \<in> set sub" by simp
    with eq have "hd sub \<in> set (take (length sub) (drop (s + k) t))" by simp
    then have "hd sub \<in> set t" by (meson in_set_dropD in_set_takeD)
    with assms(2) show False by simp
  qed
  with Suc show ?case by simp
qed

lemma py_rfind_absent: "sub \<noteq> [] \<Longrightarrow> hd sub \<notin> set t \<Longrightarrow> py_rfind t sub start end = -1"
  by (simp add: py_rfind_def Let_def rfind_scan_absent)

lemma py_rfind_empty_window:
  assumes "start < 0" "0 \<le> start + int (length t)" "0 \<le> end" "end < start + int (length t) + int (length sub)"
  shows "py_rfind t sub start end = -1"
proof -
  have "nat ((if end > int (length t) then int (length t) else end) - int (length sub) - (start + int (length t)) + 1) = 0"
    using assms by auto
  with assms show ?thesis by (simp add: py_rfind_def Let_def max_def)
qed

lemma chunk_end_rewound:
  assumes "start < -1" "0 \<le> start + max_chars div 3" "max_chars < int (length t)"
  shows "chunk_end t max_chars start = 0"
proof -
  from assms have mc: "0 \<le> max_chars" "0 \<le> start + max_chars div 2" "0 \<le> start + max_chars"
    "0 \<le> start + int (length t)" by linarith+
  have r: "py_rfind t sub start (start + max_chars) = -1" if "sub \<noteq> []" for sub
    using assms mc that by (intro py_rfind_empty_window) (auto simp: Suc_le_eq)
  show ?thesis using assms mc by (simp add: chunk_end_def Let_def r)
qed

lemma chunk_end_first_ge: "0 \<le> max_chars \<Longrightarrow> 1 \<le> chunk_end t max_chars 0 \<or> chunk_end t max_chars 0 = max_chars"
  by (auto simp: chunk_end_def Let_def)


lemma split_loop_rewound:
  assumes long: "max_chars < int (length t)" and mc: "0 \<le> max_chars div 3 - overlap" "1 < overlap"
    and start: "start < -1" "0 \<le> start + max_chars div 3"
  shows "split_loop t max_chars overlap start chunks = None"
proof -
  have e: "chunk_end t max_chars start = 0"
    using start long by (rule chunk_end_rewound)
  have e': "chunk_end t max_chars (- overlap) = 0"
    using mc long by (intro chunk_end_rewound) auto
  have "split_loop t max_chars overlap (- overlap) cs = None" for cs
    using long mc e' by (intro split_loop_fixed_point) auto
  moreover have "split_loop t max_chars overlap start chunks
      = split_loop t max_chars overlap (- overlap) (chunks @ [py_slice t start 0])"
    using long start e by (subst split_loop.simps) auto
  ultimately show ?thesis by simp
qed

lemma split_text_early_space:
  assumes long: "max_tokens * 4 < int (length t)" and mt: "0 \<le> max_tokens"
    and ov: "1 < overlap" "overlap \<le> (max_tokens * 4) div 3"
    and early: "chunk_end t (max_tokens * 4) 0 < overlap - 1"
  shows "split_text_into_chunks t max_tokens overlap = None"
proof -
  let ?m = "max_tokens * 4"
  from chunk_end_first_ge [of ?m t] mt early ov
  have pos: "1 \<le> chunk_end t ?m 0" by auto
  have "split_loop t ?m overlap (chunk_end t ?m 0 - overlap) cs = None" for cs
    using long ov early pos by (intro split_loop_rewound) auto
  moreover have "split_loop t ?m overlap 0 []
      = split_loop t ?m overlap (chunk_end t ?m 0 - overlap) ([] @ [py_slice t 0 (chunk_end t ?m 0)])"
    using long mt by (subst split_loop.simps) auto
  ultimately show ?thesis using long by (simp add: split_text_into_chunks_def)
qed

lemma rfind_scan_space:
  "rfind_scan (''a '' @ replicate n (CHR ''b'')) '' '' 0 (Suc (Suc k)) = 1"
proof (induction k)
  case 0
  show ?case by simp
next
  case (Suc k)
  have "take 1 (drop (Suc (Suc k)) (''a '' @ replicate n (CHR ''b''))) \<noteq> '' ''"
    by (cases "k < n") (simp_all add: take_Suc_conv_app_nth)
  with Suc show ?case by simp
qed

lemma chunk_end_early_space:
  "chunk_end (''a '' @ replicate 16000 (CHR ''b'')) 16000 0 = 2"
proof -
  let ?t = "''a '' @ replicate 16000 (CHR ''b'')"
  have p: "py_rfind ?t ''\<newline>\<newline>'' 0 (0 + 16000) = -1"
    by (rule py_rfind_absent) auto
  have s: "py_rfind ?t ''. '' 0 (0 + 16000) = -1"
    by (rule py_rfind_absent) auto
  have "nat (16000 - 1 - 0 + 1) = Suc (Suc 15998)" by simp
  then have sp: "py_rfind ?t '' '' 0 (0 + 16000) = 1"
    using rfind_scan_space [of 16000 15998] by (simp add: py_rfind_def Let_def)
  show ?thesis unfolding chunk_end_def Let_def p s sp by simp
qed

lemma split_text_default_never_returns:
  "split_text_into_chunks (''a '' @ replicate 16000 (CHR ''b'')) 4000 200 = None"
  by (rule split_text_early_space) (use chunk_end_early_space in simp_all)

text \<open>
  C4. The claim says that the splitting loop ends for every text, every positive
  \<open>max_tokens\<close> and every overlap. It does not: on a text whose only early space lies
  closer to the chunk start than the overlap, the loop never returns, both with a window
  of 8 characters and an overlap of 2, and with the default parameters.
\<close>

theorem split_text_never_returns:
  "split_text_into_chunks ''a bbbbbbbbbbbb'' 2 2 = None
   \<and> split_text_into_chunks (''a '' @ replicate 16000 (CHR ''b'')) 4000 200 = None"
  using split_text_small_never_returns split_text_default_never_returns by (rule conjI)

lemma split_text_short:
  "int (length t) \<le> max_tokens * 4 \<Longrightarrow> split_text_into_chunks t max_tokens overlap = Some [t]"
  by (simp add: split_text_into_chunks_def)

text \<open>
  C8. The claim says that the chunks, once the overlaps are removed, give the text back.
  On this text (window of 8 characters, overlap of 3) the function returns four chunks,
  the second one empty, and the characters \<open>b\<close> and \<open>c\<close> of the text are in none of them.
\<close>

theorem split_text_drops_text:
  "split_text_into_chunks ''a bcdefghijklmno'' 2 3 = Some [''a '', [], ''defghijk'', ''ijklmno'']
   \<and> spec_reassemble 3 [''a '', [], ''defghijk'', ''ijklmno''] = ''a ghijklmno''
   \<and> CHR ''b'' \<notin> set (concat [''a '', [], ''defghijk'', ''ijklmno''])"
proof -
  have "split_text_into_chunks ''a bcdefghijklmno'' 2 3 = Some [''a '', [], ''defghijk'', ''ijklmno'']"
    by code_simp
  then show ?thesis by (simp add: spec_reassemble_def)
qed

subsection \<open>Retry with backoff\<close>










subsection \<open>Web search\<close>

lemma search_web_body_returns:
  "\<exists>rs w'. search_web_body env query num_results w = (Inr rs, w')"
  by (auto simp: search_web_body_def split: prod.splits sum.splits)

text \<open>
  C10. For every query and every \<open>num_results\<close>, the undecorated \<open>search_web\<close> returns a
  list and never raises: an exception of the request, a status other than 200 and an
  exception of the parser all give the empty list. The retry wrapper therefore sees a
  success at the first attempt: the decorated \<open>search_web\<close> calls the body once, never
  sleeps and never re-raises.
\<close>

theorem search_web_never_raises:
  "(\<exists>rs. fst (search_web_body env query num_results w) = Inr rs)
   \<and> (\<forall>e w'. requests_get env
         (''https://www.google.com/search?q='' @ py_replace_char query (CHR '' '') (CHR ''+'')) w
          = (Inl e, w') \<longrightarrow> search_web_body env query num_results w = (Inr [], w'))
   \<and> (\<forall>resp w'. requests_get env
         (''https://www.google.com/search?q='' @ py_replace_char query (CHR '' '') (CHR ''+'')) w
          = (Inr resp, w') \<and> (status_code resp \<noteq> 200 \<or> isl (soup_select env (body_text resp)))
          \<longrightarrow> search_web_body env query num_results w = (Inr [], w'))
   \<and> search_web env query num_results w
       = (fst (search_web_body env query num_results w),
          snd (search_web_body env query num_results w), [])"
proof -
  obtain rs w' where r: "search_web_body env query num_results w = (Inr rs, w')"
    using search_web_body_returns [of env query num_results w] by auto
  have 1: "\<exists>rs. fst (search_web_body env query num_results w) = Inr rs"
    using r by simp
  have 2: "search_web env query num_results w
       = (fst (search_web_body env query num_results w),
          snd (search_web_body env query num_results w), [])"
    unfolding search_web_def retry_with_exponential_backoff_def
    by (subst retry_loop.simps) (simp add: r)
  have 3: "\<forall>e w'. requests_get env
         (''https://www.google.com/search?q='' @ py_replace_char query (CHR '' '') (CHR ''+'')) w
          = (Inl e, w') \<longrightarrow> search_web_body env query num_results w = (Inr [], w')"
    by (simp add: search_web_body_def)
  have 4: "\<forall>resp w'. requests_get env
         (''https://www.google.com/search?q='' @ py_replace_char query (CHR '' '') (CHR ''+'')) w
          = (Inr resp, w') \<and> (status_code resp \<noteq> 200 \<or> isl (soup_select env (body_text resp)))
          \<longrightarrow> search_web_body env query num_results w = (Inr [], w')"
    by (auto simp: search_web_body_def split: sum.splits)
  from 1 2 3 4 show ?thesis by blast
qed

theorem search_web_never_raises_witness:
  "fst (requests_get (stub_env llm_down 503)
          (''https://www.google.com/search?q='' @ py_replace_char ''remote work'' (CHR '' '') (CHR ''+'')) 0)
     = Inr \<lparr>status_code = 503, body_text = ''<html>''\<rparr>
   \<and> search_web_body (stub_env llm_down 503) ''remote work'' 5 0 = (Inr [], 1)
   \<and> search_web (stub_env llm_down 503) ''remote work'' 5 0 = (Inr [], 1, [])"
proof -
  have g: "requests_get (stub_env llm_down 503)
          (''https://www.google.com/search?q='' @ py_replace_char ''remote work'' (CHR '' '') (CHR ''+'')) 0
     = (Inr \<lparr>status_code = 503, body_text = ''<html>''\<rparr>, 1)"
    by (simp add: stub_env_def)
  from search_web_never_raises [of "stub_env llm_down 503" "''remote work''" 5 0] g
  have b: "search_web_body (stub_env llm_down 503) ''remote work'' 5 0 = (Inr [], 1)"
    by simp
  from search_web_never_raises [of "stub_env llm_down 503" "''remote work''" 5 0] b g
  show ?thesis by simp
qed

subsection \<open>Research stage\<close>

lemma pick_fallback: "pick FALLBACK_HR_TOPICS n \<in> set FALLBACK_HR_TOPICS"
  unfolding pick_def by (rule nth_mem) (simp add: FALLBACK_HR_TOPICS_def)

text \<open>
  C5 (amended). Whenever the \<open>try\<close> block of \<open>find_trending_topic\<close> raises (in the trend
  search, the scraping, the topic selection or the research of the selected topic), the
  exception is caught and the stage picks one of the fallback topics and researches it,
  returning what that research returns. A failure reaches the caller only when this
  fallback research itself raises.
\<close>

theorem find_trending_topic_degrades:
  "(find_trending_try env w = Some (Inl e, w') \<longrightarrow>
      find_trending_topic env w
        = research_selected env (pick FALLBACK_HR_TOPICS (random_choice env w')) w'
      \<and> pick FALLBACK_HR_TOPICS (random_choice env w') \<in> set FALLBACK_HR_TOPICS)
   \<and> (find_trending_topic env w = Some (Inl e, w') \<longrightarrow>
      (\<exists>e0 w0. find_trending_try env w = Some (Inl e0, w0)
         \<and> research_topic env (pick FALLBACK_HR_TOPICS (random_choice env w0)) [] w0
             = Some (Inl e, w')))"
proof (intro conjI impI)
  assume "find_trending_try env w = Some (Inl e, w')"
  then show "find_trending_topic env w
        = research_selected env (pick FALLBACK_HR_TOPICS (random_choice env w')) w'"
    by (simp add: find_trending_topic_def)
next
  show "pick FALLBACK_HR_TOPICS (random_choice env w') \<in> set FALLBACK_HR_TOPICS"
    by (rule pick_fallback)
next
  assume "find_trending_topic env w = Some (Inl e, w')"
  then show "\<exists>e0 w0. find_trending_try env w = Some (Inl e0, w0)
         \<and> research_topic env (pick FALLBACK_HR_TOPICS (random_choice env w0)) [] w0
             = Some (Inl e, w')"
    by (auto simp: find_trending_topic_def research_selected_def
             split: option.splits prod.splits sum.splits)
qed

theorem find_trending_topic_degrades_witness:
  "find_trending_try (stub_env llm_no_trend 200) 0 = Some (Inl (ServiceError ''rate limit''), 9)
   \<and> map_option (\<lambda>r. map_sum id fst (fst r)) (find_trending_topic (stub_env llm_no_trend 200) 0)
       = Some (Inr ''HR Compliance Updates'')
   \<and> find_trending_topic (stub_env llm_down 200) 0 = Some (Inl (ServiceError ''rate limit''), 13)"
proof -
  have t: "find_trending_try (stub_env llm_no_trend 200) 0 = Some (Inl (ServiceError ''rate limit''), 9)"
    by code_simp
  have r: "map_option (\<lambda>r. map_sum id fst (fst r))
      (research_selected (stub_env llm_no_trend 200) (pick FALLBACK_HR_TOPICS (random_choice (stub_env llm_no_trend 200) 9)) 9)
      = Some (Inr ''HR Compliance Updates'')"
    by code_simp
  have d: "find_trending_topic (stub_env llm_down 200) 0 = Some (Inl (ServiceError ''rate limit''), 13)"
    by code_simp
  from find_trending_topic_degrades [of "stub_env llm_no_trend 200" 0 "ServiceError ''rate limit''" 9] t r d
  show ?thesis by simp
qed

text \<open>
  C5 as stated fails: with a completion service that refuses every request, the research
  of the fallback topic raises inside the \<open>except\<close> handler and \<open>find_trending_topic\<close> hands
  the ServiceError to its caller.
\<close>

theorem find_trending_topic_propagates:
  "find_trending_topic (stub_env llm_down 503) 0 = Some (Inl (ServiceError ''rate limit''), 10)"
  by code_simp

subsection \<open>Planning stage\<close>






subsection \<open>Optimization stage\<close>

lemma py_contains_prefix: "py_contains sub (sub @ b)"
proof (cases "sub @ b")
  case Nil
  then show ?thesis by simp
next
  case (Cons c cs)
  have "take (length sub) (sub @ b) = sub" by simp
  with Cons show ?thesis by simp
qed

lemma py_contains_append: "py_contains sub (a @ sub @ b)"
  by (induction a) (simp_all add: py_contains_prefix)

lemma insert_suggestion_marked:
  "py_contains ''[INTERNAL LINK SUGGESTION'' (insert_suggestion modified start end link_text link_topic)"
proof -
  have "insert_suggestion modified start end link_text link_topic
      = (py_slice_to modified (int start) @ py_slice modified (int start) (int end) @ '' '')
        @ ''[INTERNAL LINK SUGGESTION''
        @ ('': '' @ link_text @ '' | '' @ link_topic @ '']'' @ py_slice_from modified (int end))"
    by (simp add: insert_suggestion_def link_suggestion_def)
  then show ?thesis by (simp only: py_contains_append)
qed

lemma link_step_marked:
  "py_contains ''[INTERNAL LINK SUGGESTION'' modified \<Longrightarrow> link_step entry tp modified = modified"
  by (simp add: link_step_def split: option.splits)

lemma link_step_once:
  "link_step entry tp modified = modified
   \<or> (\<exists>start end. re_search_word (fst entry) 0 None modified = Some (start, end)
         \<and> link_step entry tp modified
             = insert_suggestion modified start end (fst entry) (snd entry))"
  by (auto simp: link_step_def split: option.splits)

lemma add_links_loop_marked:
  "py_contains ''[INTERNAL LINK SUGGESTION'' modified \<Longrightarrow> add_links_loop topics tp modified = modified"
  by (induction topics arbitrary: modified) (simp_all add: link_step_marked)

lemma add_links_loop_once:
  "add_links_loop topics tp modified = modified
   \<or> (\<exists>link_text link_topic start end.
         (link_text, link_topic) \<in> set topics
         \<and> re_search_word link_text 0 None modified = Some (start, end)
         \<and> add_links_loop topics tp modified
             = insert_suggestion modified start end link_text link_topic)"
proof (induction topics)
  case Nil
  show ?case by simp
next
  case (Cons entry rest)
  from link_step_once [of entry tp modified] show ?case
  proof
    assume "link_step entry tp modified = modified"
    with Cons show ?thesis by auto
  next
    assume "\<exists>start end. re_search_word (fst entry) 0 None modified = Some (start, end)
         \<and> link_step entry tp modified
             = insert_suggestion modified start end (fst entry) (snd entry)"
    then obtain start "end" where
      span: "re_search_word (fst entry) 0 None modified = Some (start, end)"
      and step: "link_step entry tp modified
             = insert_suggestion modified start end (fst entry) (snd entry)" by blast
    have "add_links_loop rest tp (insert_suggestion modified start end (fst entry) (snd entry))
        = insert_suggestion modified start end (fst entry) (snd entry)"
      by (rule add_links_loop_marked) (rule insert_suggestion_marked)
    with step have "add_links_loop (entry # rest) tp modified
        = insert_suggestion modified start end (fst entry) (snd entry)" by simp
    moreover have "(fst entry, snd entry) \<in> set (entry # rest)" by simp
    ultimately show ?thesis using span by blast
  qed
qed

text \<open>
  C7. For every content, topic and keywords: when the analysis returned by \<open>analyze_seo\<close>
  has an \<open>overall_score\<close> above 85, \<open>optimize_content\<close> returns the content after the two
  local edits (link suggestion, then heading keywords) and leaves the world as the
  analysis call left it: the rewrite chain is not run. The link edit changes nothing
  when the content already holds a suggestion marker; otherwise it inserts at most one
  marker in all (hence at most one per entry of the related-topic table), after the
  first mention of one entry.
\<close>

theorem optimize_content_high_score:
  assumes "analyze_seo env content tp kw w = (Inr seo_analysis, w1)"
    and "score_above_85 seo_analysis = Inr True"
  shows "optimize_content env content tp kw w
           = (optimize_headings (add_internal_linking_suggestions content tp) tp kw, w1)
         \<and> (py_contains ''[INTERNAL LINK SUGGESTION'' content
              \<longrightarrow> add_internal_linking_suggestions content tp = content)
         \<and> (add_internal_linking_suggestions content tp = content
              \<or> (\<exists>link_text link_topic start end.
                    (link_text, link_topic) \<in> set related_topics
                    \<and> re_search_word link_text 0 None content = Some (start, end)
                    \<and> add_internal_linking_suggestions content tp
                        = insert_suggestion content start end link_text link_topic))"
proof (intro conjI)
  show "optimize_content env content tp kw w
           = (optimize_headings (add_internal_linking_suggestions content tp) tp kw, w1)"
    using assms by (simp add: optimize_content_def)
  show "py_contains ''[INTERNAL LINK SUGGESTION'' content
          \<longrightarrow> add_internal_linking_suggestions content tp = content"
    by (simp add: add_internal_linking_suggestions_def add_links_loop_marked)
  show "add_internal_linking_suggestions content tp = content
          \<or> (\<exists>link_text link_topic start end.
                (link_text, link_topic) \<in> set related_topics
                \<and> re_search_word link_text 0 None content = Some (start, end)
                \<and> add_internal_linking_suggestions content tp
                    = insert_suggestion content start end link_text link_topic)"
    unfolding add_internal_linking_suggestions_def by (rule add_links_loop_once)
qed

theorem optimize_content_high_score_witness:
  \<open>analyze_seo (stub_env (llm_seo ''{"overall_score": 90}'') 200) sample_post ''Hybrid Teams'' ''hybrid'' 0
     = (Inr (JObject [(''overall_score'', JInt 90)]), 1)
   \<and> score_above_85 (JObject [(''overall_score'', JInt 90)]) = Inr True
   \<and> optimize_content (stub_env (llm_seo ''{"overall_score": 90}'') 200) sample_post ''Hybrid Teams'' ''hybrid'' 0
     = (''## Tips: Hybrid\<newline>\<newline>Remote work [INTERNAL LINK SUGGESTION: Remote Work | remote work best practices] and employee engagement.'', 1)
   \<and> optimize_content (stub_env (llm_seo ''{"overall_score": 40}'') 200) sample_post ''Hybrid Teams'' ''hybrid'' 0
     = (''Rewritten.'', 2)\<close>
proof -
  have r: \<open>optimize_content (stub_env (llm_seo ''{"overall_score": 40}'') 200) sample_post ''Hybrid Teams'' ''hybrid'' 0
     = (''Rewritten.'', 2)\<close>
    by code_simp
  have a: \<open>analyze_seo (stub_env (llm_seo ''{"overall_score": 90}'') 200) sample_post ''Hybrid Teams'' ''hybrid'' 0
     = (Inr (JObject [(''overall_score'', JInt 90)]), 1)\<close>
    by code_simp
  have s: "score_above_85 (JObject [(''overall_score'', JInt 90)]) = Inr True"
    by (simp add: score_above_85_def dict_get_def)
  have l: "add_internal_linking_suggestions sample_post ''Hybrid Teams''
     = ''## Tips\<newline>\<newline>Remote work [INTERNAL LINK SUGGESTION: Remote Work | remote work best practices] and employee engagement.''"
    by code_simp
  have h: "optimize_headings ''## Tips\<newline>\<newline>Remote work [INTERNAL LINK SUGGESTION: Remote Work | remote work best practices] and employee engagement.'' ''Hybrid Teams'' ''hybrid''
     = ''## Tips: Hybrid\<newline>\<newline>Remote work [INTERNAL LINK SUGGESTION: Remote Work | remote work best practices] and employee engagement.''"
    by code_simp
  from optimize_content_high_score [OF a s] have
    \<open>optimize_content (stub_env (llm_seo ''{"overall_score": 90}'') 200) sample_post ''Hybrid Teams'' ''hybrid'' 0
       = (optimize_headings (add_internal_linking_suggestions sample_post ''Hybrid Teams'') ''Hybrid Teams'' ''hybrid'', 1)\<close>
    by (rule conjunct1)
  with a s r show ?thesis by (simp only: l h simp_thms)
qed

subsection \<open>Review stage\<close>

text \<open>
  C2. For every content string, \<open>review_content\<close> returns a document and never raises;
  when the first completion call raises, when the second one raises, and when the
  document left by the two passes has fewer words than 90% of the original word count,
  that document is \<open>fix_basic_issues\<close> of the original content, not the output of the
  passes.
\<close>

theorem review_content_fallback:
  "(\<exists>doc w'. review_content env content w = (Inr doc, w'))
   \<and> (\<forall>e w1. chain_run env ContentReview [(''content'', content)] w = (Inl e, w1)
        \<longrightarrow> review_content env content w = (Inr (fix_basic_issues content), w1))
   \<and> (\<forall>reviewed w1 e w2.
          chain_run env ContentReview [(''content'', content)] w = (Inr reviewed, w1)
          \<and> chain_run env FinalCheck [(''content'', reviewed)] w1 = (Inl e, w2)
        \<longrightarrow> review_content env content w = (Inr (fix_basic_issues content), w2))
   \<and> (\<forall>reviewed w1 final w2.
          chain_run env ContentReview [(''content'', content)] w = (Inr reviewed, w1)
          \<and> chain_run env FinalCheck [(''content'', reviewed)] w1 = (Inr final, w2)
          \<and> of_int (count_words final) < times_0_9 (count_words content)
        \<longrightarrow> review_content env content w = (Inr (fix_basic_issues content), w2))"
proof (intro conjI)
  show "\<exists>doc w'. review_content env content w = (Inr doc, w')"
    by (auto simp: review_content_def Let_def split: prod.splits sum.splits)
qed (simp_all add: review_content_def Let_def)

theorem review_content_fallback_witness:
  "chain_run (stub_env llm_cutting 200) ContentReview [(''content'', draft_text)] 0
     = (Inr draft_text, 1)
   \<and> chain_run (stub_env llm_cutting 200) FinalCheck [(''content'', draft_text)] 1
     = (Inr ''Done.'', 2)
   \<and> count_words ''Done.'' = 1
   \<and> count_words draft_text = 8
   \<and> review_content (stub_env llm_cutting 200) draft_text 0
     = (Inr ''Teh team and it's plan. Good management\<newline>\<newline>ends'', 2)
   \<and> review_content (stub_env llm_down 200) draft_text 0
     = (Inr ''Teh team and it's plan. Good management\<newline>\<newline>ends'', 1)"
proof -
  have c1: "chain_run (stub_env llm_cutting 200) ContentReview [(''content'', draft_text)] 0
     = (Inr draft_text, 1)"
    by (simp add: stub_env_def llm_cutting_def)
  have c2: "chain_run (stub_env llm_cutting 200) FinalCheck [(''content'', draft_text)] 1
     = (Inr ''Done.'', 2)"
    by (simp add: stub_env_def llm_cutting_def)
  have d: "chain_run (stub_env llm_down 200) ContentReview [(''content'', draft_text)] 0
     = (Inl (ServiceError ''rate limit''), 1)"
    by (simp add: stub_env_def llm_down_def)
  have n1: "count_words ''Done.'' = 1" by code_simp
  have n2: "count_words draft_text = 8" by code_simp
  have less: "of_int (count_words ''Done.'') < times_0_9 (count_words draft_text)"
    by (simp add: n1 n2 times_0_9_def)
  have f: "fix_basic_issues draft_text = ''Teh team and it's plan. Good management\<newline>\<newline>ends''"
    by code_simp
  from review_content_fallback [of "stub_env llm_cutting 200" draft_text 0] c1 c2 less
  have r1: "review_content (stub_env llm_cutting 200) draft_text 0
      = (Inr (fix_basic_issues draft_text), 2)"
    by blast
  from review_content_fallback [of "stub_env llm_down 200" draft_text 0] d
  have r2: "review_content (stub_env llm_down 200) draft_text 0
      = (Inr (fix_basic_issues draft_text), 1)"
    by blast
  from c1 c2 n1 n2 r1 r2 show ?thesis by (simp only: f simp_thms)
qed

end
